theory Spec2Isabelle
  imports Complex_Main "HOL-Library.Sublist"
begin

section \<open>Python values, exceptions and effects\<close>

text \<open>
  Both programs of the repository (the handler in \<^verbatim>\<open>lambda_handler.py\<close> and the client in
  \<^verbatim>\<open>analyze_cli.py\<close>) compute on JSON-shaped Python values: \<^verbatim>\<open>None\<close>, booleans, integers,
  floats, strings, lists and dictionaries with string keys. A dictionary is an association
  list in insertion order (the order \<^verbatim>\<open>json.dumps\<close> writes). Floats are modelled by exact
  rationals.
\<close>

datatype json =
    JNull
  | JBool bool
  | JInt int
  | JFloat rat
  | JStr string
  | JArr "json list"
  | JObj "(string \<times> json) list"

text \<open>Python truthiness, as tested by \<^verbatim>\<open>if not document_id\<close> and \<^verbatim>\<open>if result\<close>.\<close>

fun truthy :: "json \<Rightarrow> bool" where
  "truthy JNull = False"
| "truthy (JBool b) = b"
| "truthy (JInt i) = (i \<noteq> 0)"
| "truthy (JFloat r) = (r \<noteq> 0)"
| "truthy (JStr s) = (s \<noteq> [])"
| "truthy (JArr xs) = (xs \<noteq> [])"
| "truthy (JObj kvs) = (kvs \<noteq> [])"

fun type_name :: "json \<Rightarrow> string" where
  "type_name JNull = ''NoneType''"
| "type_name (JBool b) = ''bool''"
| "type_name (JInt i) = ''int''"
| "type_name (JFloat r) = ''float''"
| "type_name (JStr s) = ''str''"
| "type_name (JArr xs) = ''list''"
| "type_name (JObj kvs) = ''dict''"

text \<open>
  An exception is its class and its message (\<^verbatim>\<open>str(e)\<close>). \<open>RequestException\<close> is the root
  of the exceptions of the \<^verbatim>\<open>requests\<close> library; \<open>HTTPError\<close>, \<open>ConnectionError\<close> and
  \<open>Timeout\<close> are subclasses of it, the other classes are not.
\<close>

datatype exn_class =
    JSONDecodeError
  | TypeError
  | AttributeError
  | KeyError
  | ClientError
  | FileNotFoundError
  | RequestException
  | HTTPError
  | ConnectionError
  | Timeout
  | OtherException

datatype exn = Exn exn_class string

fun exn_message :: "exn \<Rightarrow> string" where
  "exn_message (Exn c m) = m"

fun is_RequestException :: "exn \<Rightarrow> bool" where
  "is_RequestException (Exn c m) = (c \<in> {RequestException, HTTPError, ConnectionError, Timeout})"

text \<open>
  The library functions the source calls but does not define are parameters:
  \<^verbatim>\<open>json.loads\<close>, \<^verbatim>\<open>json.dumps\<close>, \<^verbatim>\<open>json.dumps(..., indent=2)\<close> and Python's \<^verbatim>\<open>str()\<close> on a
  value that is not already a string.
\<close>

record lib =
  loads :: "string \<Rightarrow> exn + json"
  dumps :: "json \<Rightarrow> string"
  dumps_indent2 :: "json \<Rightarrow> string"
  str_value :: "json \<Rightarrow> string"

text \<open>What an f-string writes for \<^verbatim>\<open>{v}\<close>.\<close>

definition py_format :: "lib \<Rightarrow> json \<Rightarrow> string" where
  "py_format L v = (case v of JStr s \<Rightarrow> s | _ \<Rightarrow> str_value L v)"

text \<open>\<^verbatim>\<open>d.get(k, default)\<close>: only a dictionary has the method.\<close>

definition py_get :: "json \<Rightarrow> string \<Rightarrow> json \<Rightarrow> exn + json" where
  "py_get v k dflt =
     (case v of
        JObj d \<Rightarrow> Inr (case map_of d k of None \<Rightarrow> dflt | Some x \<Rightarrow> x)
      | _ \<Rightarrow> Inl (Exn AttributeError
                 ([CHR 0x27] @ type_name v @ [CHR 0x27] @ '' object has no attribute ''
                  @ [CHR 0x27] @ ''get'' @ [CHR 0x27])))"

text \<open>
  \<^verbatim>\<open>v[k]\<close> with a string key: a dictionary raises \<^verbatim>\<open>KeyError\<close> for a missing key, any
  other value raises \<^verbatim>\<open>TypeError\<close>.
\<close>

definition subscript :: "json \<Rightarrow> string \<Rightarrow> exn + json" where
  "subscript v k =
     (case v of
        JObj d \<Rightarrow> (case map_of d k of
                     None \<Rightarrow> Inl (Exn KeyError ([CHR 0x27] @ k @ [CHR 0x27]))
                   | Some x \<Rightarrow> Inr x)
      | JStr s \<Rightarrow> Inl (Exn TypeError ''string indices must be integers'')
      | JArr xs \<Rightarrow> Inl (Exn TypeError ''list indices must be integers or slices, not str'')
      | _ \<Rightarrow> Inl (Exn TypeError
                 ([CHR 0x27] @ type_name v @ [CHR 0x27] @ '' object is not subscriptable'')))"

text \<open>Decimal digits of an integer, as \<^verbatim>\<open>str(n)\<close> writes them.\<close>

definition digit_char :: "nat \<Rightarrow> char" where
  "digit_char d = ''0123456789'' ! d"

function show_nat :: "nat \<Rightarrow> string" where
  "show_nat n = (if n < 10 then [digit_char n] else show_nat (n div 10) @ [digit_char (n mod 10)])"
  by pat_completeness auto
termination
  by (relation "measure (\<lambda>n. n)") auto

declare show_nat.simps [simp del]

definition show_int :: "int \<Rightarrow> string" where
  "show_int i = (if i < 0 then ''-'' @ show_nat (nat (- i)) else show_nat (nat i))"

text \<open>\<^verbatim>\<open>int(x)\<close> of a float truncates towards zero.\<close>

definition py_int :: "rat \<Rightarrow> int" where
  "py_int r = (if 0 \<le> r then \<lfloor>r\<rfloor> else \<lceil>r\<rceil>)"

text \<open>
  A \<^verbatim>\<open>datetime\<close> object is modelled by the two methods the source calls on it.
\<close>

record datetime =
  isoformat :: string
  timestamp :: rat

subsection \<open>Programs with effects and exceptions\<close>

text \<open>
  A statement sequence takes the trace of effects so far and returns either the raised
  exception or a value, with the extended trace.
\<close>

type_synonym ('e, 'a) prog = "'e list \<Rightarrow> (exn + 'a) \<times> 'e list"

definition ret :: "'a \<Rightarrow> ('e, 'a) prog" where
  "ret x = (\<lambda>tr. (Inr x, tr))"

definition raise :: "exn \<Rightarrow> ('e, 'a) prog" where
  "raise e = (\<lambda>tr. (Inl e, tr))"

definition lift :: "exn + 'a \<Rightarrow> ('e, 'a) prog" where
  "lift r = (\<lambda>tr. (r, tr))"

definition emit :: "'e \<Rightarrow> ('e, unit) prog" where
  "emit ef = (\<lambda>tr. (Inr (), tr @ [ef]))"

definition get_trace :: "('e, 'e list) prog" where
  "get_trace = (\<lambda>tr. (Inr tr, tr))"

definition bind :: "('e, 'a) prog \<Rightarrow> ('a \<Rightarrow> ('e, 'b) prog) \<Rightarrow> ('e, 'b) prog" where
  "bind m f = (\<lambda>tr. case m tr of (Inl e, tr') \<Rightarrow> (Inl e, tr') | (Inr x, tr') \<Rightarrow> f x tr')"

text \<open>\<^verbatim>\<open>try: m except <classes matching catches> as e: h e\<close>.\<close>

definition try_except :: "('e, 'a) prog \<Rightarrow> (exn \<Rightarrow> bool) \<Rightarrow> (exn \<Rightarrow> ('e, 'a) prog) \<Rightarrow> ('e, 'a) prog" where
  "try_except m catches h =
     (\<lambda>tr. case m tr of
              (Inl e, tr') \<Rightarrow> (if catches e then h e tr' else (Inl e, tr'))
            | (Inr x, tr') \<Rightarrow> (Inr x, tr'))"

section \<open>The request handler (lambda_handler.py)\<close>

record put_object_request =
  Bucket :: string
  Key :: string
  Body :: string
  ContentType :: string

record metric_datum =
  MetricName :: string
  Value :: json
  Unit :: string
  Timestamp :: datetime

record put_metric_data_request =
  Namespace :: string
  MetricData :: "metric_datum list"

datatype effect =
    LogInfo string
  | LogError string
  | Sleep rat
  | S3PutObject put_object_request
  | CloudWatchPutMetricData put_metric_data_request
  | SendMetrics json json json

text \<open>
  Everything one invocation of the handler reads from outside: the environment
  variables, the value of each \<^verbatim>\<open>datetime.utcnow()\<close> call (one field per call site, each
  site runs at most once), the raw output of the random generator at each call site, and
  how the two AWS calls answer (\<open>None\<close>: they return; \<open>Some e\<close>: they raise \<open>e\<close>).
\<close>

record world =
  environ :: "string \<Rightarrow> string option"
  now_start :: datetime
  now_id :: datetime
  now_key :: datetime
  now_error :: datetime
  r_sleep :: nat
  r_score :: nat
  r_valid :: nat
  r_docs_per_hour :: nat
  r_docs_per_day :: nat
  r_p50 :: nat
  r_p95 :: nat
  r_p99 :: nat
  s3_put_object :: "put_object_request \<Rightarrow> exn option"
  cloudwatch_put_metric_data :: "put_metric_data_request \<Rightarrow> exn option"

definition METRICS_NAMESPACE :: "world \<Rightarrow> string" where
  "METRICS_NAMESPACE W =
     (case environ W ''METRICS_NAMESPACE'' of None \<Rightarrow> ''VCHASNO/Analytics'' | Some v \<Rightarrow> v)"

definition RESULTS_BUCKET :: "world \<Rightarrow> string" where
  "RESULTS_BUCKET W =
     (case environ W ''RESULTS_BUCKET'' of None \<Rightarrow> ''vchasno-analysis-results'' | Some v \<Rightarrow> v)"

subsection \<open>The random module\<close>

text \<open>
  \<^verbatim>\<open>random.random()\<close> is a multiple of \<open>2^-53\<close> in \<open>[0, 1)\<close>, \<^verbatim>\<open>random.uniform(a, b)\<close> is
  \<^verbatim>\<open>a + (b - a) * random()\<close>, \<^verbatim>\<open>random.randint(a, b)\<close> is \<open>a\<close> plus a number below
  \<open>b - a + 1\<close>, and \<^verbatim>\<open>random.choice(xs)\<close> indexes \<open>xs\<close> with a number below its length. The
  argument \<open>n\<close> is the raw output of the generator.
\<close>

definition random_unit :: "nat \<Rightarrow> rat" where
  "random_unit n = of_nat (n mod 2 ^ 53) / 2 ^ 53"

definition uniform :: "rat \<Rightarrow> rat \<Rightarrow> nat \<Rightarrow> rat" where
  "uniform a b n = a + (b - a) * random_unit n"

definition randint :: "int \<Rightarrow> int \<Rightarrow> nat \<Rightarrow> int" where
  "randint a b n = a + int (n mod nat (b - a + 1))"

definition choice :: "'a list \<Rightarrow> nat \<Rightarrow> 'a" where
  "choice xs n = xs ! (n mod length xs)"

subsection \<open>analyze_document\<close>

definition analyze_document :: "lib \<Rightarrow> world \<Rightarrow> json \<Rightarrow> json \<Rightarrow> (effect, json) prog" where
  "analyze_document L W document_id document_type =
     (let start_time = now_start W in
      bind (emit (Sleep (uniform (1 / 20) (1 / 5) (r_sleep W)))) (\<lambda>_.
      let analysis_id = ''AN-'' @ py_format L document_id @ ''-''
                        @ show_int (py_int (timestamp (now_id W)))
      in ret (JObj
           [(''analysis_id'', JStr analysis_id),
            (''document_id'', document_id),
            (''document_type'', document_type),
            (''timestamp'', JStr (isoformat start_time)),
            (''compliance_score'', JFloat (uniform 85 99 (r_score W))),
            (''validation_passed'', JBool (choice [True, True, True, False] (r_valid W))),
            (''metrics'', JObj
               [(''docs_per_hour'', JInt (randint 500 2000 (r_docs_per_hour W))),
                (''docs_per_day'', JInt (randint 10000 45000 (r_docs_per_day W))),
                (''latency_p50'', JFloat (uniform (1 / 10) (3 / 10) (r_p50 W))),
                (''latency_p95'', JFloat (uniform (4 / 10) (8 / 10) (r_p95 W))),
                (''latency_p99'', JFloat (uniform (9 / 10) (15 / 10) (r_p99 W)))]),
            (''key_findings'', JArr
               [JStr ''Document structure compliant'',
                JStr ''All required fields present'',
                JStr ''Signatures valid''])])))"

subsection \<open>send_metrics\<close>

text \<open>
  Modelled from the spec: the body of \<^verbatim>\<open>send_metrics\<close> is cut off in
  \<^verbatim>\<open>src/lambda_handler.py\<close> right after its opening \<^verbatim>\<open>try:\<close>. The spec says that it emits
  the operational metrics of the result (tagged by document type) and that a failure of the
  emission must not fail the request. The model records one emission attempt and never
  raises.
\<close>

definition send_metrics :: "json \<Rightarrow> json \<Rightarrow> json \<Rightarrow> (effect, unit) prog" where
  "send_metrics document_type analysis_result source =
     emit (SendMetrics document_type analysis_result source)"

subsection \<open>lambda_handler\<close>

text \<open>Line 35: \<^verbatim>\<open>body = json.loads(event.get('body', '{}'))\<close>.\<close>

definition request_body :: "lib \<Rightarrow> json \<Rightarrow> exn + json" where
  "request_body L event =
     (case py_get event ''body'' (JStr ''{}'') of
        Inl e \<Rightarrow> Inl e
      | Inr (JStr s) \<Rightarrow> loads L s
      | Inr v \<Rightarrow> Inl (Exn TypeError
                   (''the JSON object must be str, bytes or bytearray, not '' @ type_name v)))"

text \<open>A call of an AWS client: the request is recorded, then the service answers.\<close>

definition s3_put :: "world \<Rightarrow> put_object_request \<Rightarrow> (effect, unit) prog" where
  "s3_put W req =
     bind (emit (S3PutObject req)) (\<lambda>_.
     case s3_put_object W req of None \<Rightarrow> ret () | Some e \<Rightarrow> raise e)"

definition cloudwatch_put :: "world \<Rightarrow> put_metric_data_request \<Rightarrow> (effect, unit) prog" where
  "cloudwatch_put W req =
     bind (emit (CloudWatchPutMetricData req)) (\<lambda>_.
     case cloudwatch_put_metric_data W req of None \<Rightarrow> ret () | Some e \<Rightarrow> raise e)"

text \<open>Line 54: the object key of the stored result.\<close>

definition result_key :: "lib \<Rightarrow> world \<Rightarrow> json \<Rightarrow> string" where
  "result_key L W document_id =
     ''analysis/'' @ py_format L document_id @ ''/'' @ isoformat (now_key W) @ ''.json''"

text \<open>Lines 55 to 60: the arguments of \<^verbatim>\<open>s3.put_object\<close>.\<close>

definition result_object :: "lib \<Rightarrow> world \<Rightarrow> json \<Rightarrow> json \<Rightarrow> put_object_request" where
  "result_object L W document_id analysis_result =
     \<lparr>Bucket = RESULTS_BUCKET W, Key = result_key L W document_id,
      Body = dumps L analysis_result, ContentType = ''application/json''\<rparr>"

text \<open>Lines 94 to 104: the arguments of \<^verbatim>\<open>cloudwatch.put_metric_data\<close> in the error path.\<close>

definition analysis_errors_metric :: "world \<Rightarrow> put_metric_data_request" where
  "analysis_errors_metric W =
     \<lparr>Namespace = METRICS_NAMESPACE W,
      MetricData =
        [\<lparr>MetricName = ''AnalysisErrors'', Value = JInt 1, Unit = ''Count'',
          Timestamp = now_error W\<rparr>]\<rparr>"

text \<open>Lines 66 to 77: the dictionary \<^verbatim>\<open>response_body\<close>; a subscript raises for a missing key.\<close>

definition build_response_body :: "lib \<Rightarrow> world \<Rightarrow> json \<Rightarrow> json \<Rightarrow> (effect, json) prog" where
  "build_response_body L W document_id analysis_result =
     bind (lift (subscript analysis_result ''analysis_id'')) (\<lambda>analysis_id.
     bind (lift (subscript analysis_result ''metrics'')) (\<lambda>m1.
     bind (lift (subscript m1 ''docs_per_hour'')) (\<lambda>generation_rate.
     bind (lift (subscript analysis_result ''metrics'')) (\<lambda>m2.
     bind (lift (subscript m2 ''latency_p50'')) (\<lambda>latency_p50.
     bind (lift (subscript analysis_result ''metrics'')) (\<lambda>m3.
     bind (lift (subscript m3 ''latency_p95'')) (\<lambda>latency_p95.
     bind (lift (subscript analysis_result ''metrics'')) (\<lambda>m4.
     bind (lift (subscript m4 ''latency_p99'')) (\<lambda>latency_p99.
     ret (JObj
           [(''document_id'', document_id),
            (''analysis_id'', analysis_id),
            (''status'', JStr ''completed''),
            (''result_location'',
               JStr (''s3://'' @ RESULTS_BUCKET W @ ''/'' @ result_key L W document_id)),
            (''metrics'', JObj
               [(''generation_rate'', generation_rate),
                (''latency_p50'', latency_p50),
                (''latency_p95'', latency_p95),
                (''latency_p99'', latency_p99)])]))))))))))"

text \<open>The body of the \<^verbatim>\<open>try\<close> block, lines 32 to 88.\<close>

definition handler_try :: "lib \<Rightarrow> world \<Rightarrow> json \<Rightarrow> (effect, json) prog" where
  "handler_try L W event =
     bind (emit (LogInfo (''Received event: '' @ dumps L event))) (\<lambda>_.
     bind (lift (request_body L event)) (\<lambda>body.
     bind (lift (py_get body ''document_id'' JNull)) (\<lambda>document_id.
     bind (lift (py_get body ''document_type'' (JStr ''contract''))) (\<lambda>document_type.
     bind (lift (py_get body ''source'' (JStr ''unknown''))) (\<lambda>source.
     if \<not> truthy document_id then
       ret (JObj
         [(''statusCode'', JInt 400),
          (''body'', JStr (dumps L (JObj [(''error'', JStr ''document_id is required'')])))])
     else
     bind (analyze_document L W document_id document_type) (\<lambda>analysis_result.
     bind (s3_put W (result_object L W document_id analysis_result)) (\<lambda>_.
     bind (send_metrics document_type analysis_result source) (\<lambda>_.
     bind (build_response_body L W document_id analysis_result) (\<lambda>response_body.
     bind (emit (LogInfo (''Analysis completed: '' @ str_value L response_body))) (\<lambda>_.
     ret (JObj
       [(''statusCode'', JInt 200),
        (''headers'', JObj
           [(''Content-Type'', JStr ''application/json''),
            (''Access-Control-Allow-Origin'', JStr ''*'')]),
        (''body'', JStr (dumps L response_body))])))))))))))"

text \<open>The handler of \<^verbatim>\<open>except Exception as e\<close>, lines 91 to 115.\<close>

definition handler_except :: "lib \<Rightarrow> world \<Rightarrow> exn \<Rightarrow> (effect, json) prog" where
  "handler_except L W e =
     bind (emit (LogError (''Error processing request: '' @ exn_message e))) (\<lambda>_.
     bind (cloudwatch_put W (analysis_errors_metric W)) (\<lambda>_.
     ret (JObj
       [(''statusCode'', JInt 500),
        (''headers'', JObj [(''Content-Type'', JStr ''application/json'')]),
        (''body'', JStr (dumps L (JObj
           [(''error'', JStr ''Internal server error''),
            (''message'', JStr (exn_message e))])))])))"

text \<open>
  One invocation: the outcome (\<open>Inr\<close> the returned response, \<open>Inl\<close> an exception that
  leaves the handler) and the trace of its effects.
\<close>

definition lambda_handler :: "lib \<Rightarrow> world \<Rightarrow> json \<Rightarrow> (exn + json) \<times> effect list" where
  "lambda_handler L W event =
     try_except (handler_try L W event) (\<lambda>e. True) (handler_except L W) []"

text \<open>The requests to the object store that a trace holds, in order.\<close>

definition s3_requests :: "effect list \<Rightarrow> put_object_request list" where
  "s3_requests tr = concat (map (\<lambda>ef. case ef of S3PutObject r \<Rightarrow> [r] | _ \<Rightarrow> []) tr)"

section \<open>The client (analyze_cli.py)\<close>

record http_request =
  req_method :: string
  req_url :: string
  req_json :: "json option"
  req_headers :: "(string \<times> string) list"

text \<open>
  A response of the \<^verbatim>\<open>requests\<close> library: its status line, its URL and what
  \<^verbatim>\<open>response.json()\<close> does (it raises when the body is not JSON).
\<close>

record http_response =
  status_code :: nat
  reason :: string
  resp_url :: string
  json_result :: "exn + json"

datatype cli_effect =
    HttpRequest http_request
  | Stdout string
  | Stderr string

definition http_requests :: "cli_effect list \<Rightarrow> http_request list" where
  "http_requests tr = concat (map (\<lambda>ef. case ef of HttpRequest r \<Rightarrow> [r] | _ \<Rightarrow> []) tr)"

definition requests_sent :: "cli_effect list \<Rightarrow> nat" where
  "requests_sent tr = length (http_requests tr)"

text \<open>
  What the client reads from outside. \<open>http k req\<close> is the answer to \<open>req\<close> when \<open>k\<close>
  requests were sent before it: \<open>Inl\<close> an exception raised by \<^verbatim>\<open>requests.post\<close> or
  \<^verbatim>\<open>requests.get\<close>, \<open>Inr\<close> a response. \<open>utcnow k\<close> is the clock read while the payload of
  that request is built. \<open>read_json_file\<close> is \<^verbatim>\<open>open\<close> followed by \<^verbatim>\<open>json.load\<close>.
\<close>

record cli_world =
  utcnow :: "nat \<Rightarrow> datetime"
  http :: "nat \<Rightarrow> http_request \<Rightarrow> exn + http_response"
  read_json_file :: "string \<Rightarrow> exn + json"

text \<open>\<^verbatim>\<open>requests.post\<close> and \<^verbatim>\<open>requests.get\<close>: the request goes out, then the answer comes.\<close>

definition send_request :: "cli_world \<Rightarrow> http_request \<Rightarrow> (cli_effect, http_response) prog" where
  "send_request C req =
     bind get_trace (\<lambda>tr.
     bind (emit (HttpRequest req)) (\<lambda>_.
     lift (http C (requests_sent tr) req)))"

text \<open>\<^verbatim>\<open>response.raise_for_status()\<close> raises \<^verbatim>\<open>HTTPError\<close> for a status from 400 to 599.\<close>

definition raise_for_status :: "http_response \<Rightarrow> exn + unit" where
  "raise_for_status response =
     (if 400 \<le> status_code response \<and> status_code response < 500 then
        Inl (Exn HTTPError (show_nat (status_code response) @ '' Client Error: ''
               @ reason response @ '' for url: '' @ resp_url response))
      else if 500 \<le> status_code response \<and> status_code response < 600 then
        Inl (Exn HTTPError (show_nat (status_code response) @ '' Server Error: ''
               @ reason response @ '' for url: '' @ resp_url response))
      else Inr ())"

text \<open>
  Lines 33 and 34 (and 53 and 54): \<^verbatim>\<open>response.raise_for_status()\<close>, then
  \<^verbatim>\<open>return response.json()\<close>, applied to the answer of the request.
\<close>

definition response_json :: "exn + http_response \<Rightarrow> exn + json" where
  "response_json answer =
     (case answer of
        Inl e \<Rightarrow> Inl e
      | Inr response \<Rightarrow>
          (case raise_for_status response of
             Inl e \<Rightarrow> Inl e
           | Inr _ \<Rightarrow> json_result response))"

text \<open>Lines 20 to 32: the request that \<^verbatim>\<open>analyze_document\<close> sends as request number \<open>k\<close>.\<close>

definition analyze_request :: "cli_world \<Rightarrow> string \<Rightarrow> json \<Rightarrow> string \<Rightarrow> nat \<Rightarrow> http_request" where
  "analyze_request C endpoint_url doc_id doc_type k =
     (let payload = JObj
            [(''document_id'', doc_id),
             (''document_type'', JStr doc_type),
             (''timestamp'', JStr (isoformat (utcnow C k))),
             (''source'', JStr ''cli'')]
      in \<lparr>req_method = ''POST'', req_url = endpoint_url @ ''/analyze'',
          req_json = Some payload,
          req_headers = [(''Content-Type'', ''application/json'')]\<rparr>)"

text \<open>
  The method \<^verbatim>\<open>VCHASNOAnalyticsCLI.analyze_document\<close>. The value \<open>JNull\<close> is Python's
  \<^verbatim>\<open>None\<close>.
\<close>

definition analyze_document_cli ::
    "cli_world \<Rightarrow> string \<Rightarrow> json \<Rightarrow> string \<Rightarrow> (cli_effect, json) prog" where
  "analyze_document_cli C endpoint_url doc_id doc_type =
     bind get_trace (\<lambda>tr.
     try_except
       (bind (send_request C (analyze_request C endpoint_url doc_id doc_type (requests_sent tr)))
          (\<lambda>response. lift (response_json (Inr response))))
       is_RequestException
       (\<lambda>e. bind (emit (Stderr (''Error analyzing document: '' @ exn_message e))) (\<lambda>_.
            ret JNull)))"

text \<open>
  \<^verbatim>\<open>for doc_id in doc_ids\<close>: a list gives its elements, a dictionary its keys, a string its
  characters; any other value is not iterable.
\<close>

definition py_iter :: "json \<Rightarrow> exn + json list" where
  "py_iter v =
     (case v of
        JArr xs \<Rightarrow> Inr xs
      | JObj kvs \<Rightarrow> Inr (map (\<lambda>kv. JStr (fst kv)) kvs)
      | JStr s \<Rightarrow> Inr (map (\<lambda>c. JStr [c]) s)
      | _ \<Rightarrow> Inl (Exn TypeError
                 ([CHR 0x27] @ type_name v @ [CHR 0x27] @ '' object is not iterable'')))"

text \<open>The loop of \<^verbatim>\<open>batch_analyze\<close>, with the list \<open>results\<close> as accumulator.\<close>

fun batch_loop ::
    "lib \<Rightarrow> cli_world \<Rightarrow> string \<Rightarrow> string \<Rightarrow> json list \<Rightarrow> json list \<Rightarrow> (cli_effect, json list) prog" where
  "batch_loop L C endpoint_url doc_type [] results = ret results"
| "batch_loop L C endpoint_url doc_type (doc_id # rest) results =
     bind (emit (Stdout (''Analyzing document '' @ py_format L doc_id @ ''...''))) (\<lambda>_.
     bind (analyze_document_cli C endpoint_url doc_id doc_type) (\<lambda>result.
     batch_loop L C endpoint_url doc_type rest
       (if truthy result then results @ [result] else results)))"

definition batch_analyze ::
    "lib \<Rightarrow> cli_world \<Rightarrow> string \<Rightarrow> json \<Rightarrow> string \<Rightarrow> (cli_effect, json list) prog" where
  "batch_analyze L C endpoint_url doc_ids doc_type =
     bind (lift (py_iter doc_ids)) (\<lambda>ids.
     batch_loop L C endpoint_url doc_type ids [])"

definition stats_request :: "string \<Rightarrow> http_request" where
  "stats_request endpoint_url =
     \<lparr>req_method = ''GET'', req_url = endpoint_url @ ''/stats'', req_json = None,
      req_headers = []\<rparr>"

definition get_stats :: "cli_world \<Rightarrow> string \<Rightarrow> (cli_effect, json) prog" where
  "get_stats C endpoint_url =
     try_except
       (bind (send_request C (stats_request endpoint_url))
          (\<lambda>response. lift (response_json (Inr response))))
       is_RequestException
       (\<lambda>e. bind (emit (Stderr (''Error fetching stats: '' @ exn_message e))) (\<lambda>_.
            ret JNull))"

subsection \<open>main\<close>

datatype action = Analyze | Batch | Stats

text \<open>The namespace that \<^verbatim>\<open>parser.parse_args()\<close> returns.\<close>

record args =
  arg_endpoint :: string
  arg_action :: action
  arg_doc_id :: "string option"
  arg_doc_type :: string
  arg_batch_file :: "string option"

text \<open>\<^verbatim>\<open>not args.doc_id\<close>: the option is absent or the empty string.\<close>

definition not_given :: "string option \<Rightarrow> bool" where
  "not_given a = (case a of None \<Rightarrow> True | Some s \<Rightarrow> s = [])"

definition given :: "string option \<Rightarrow> string" where
  "given a = (case a of None \<Rightarrow> [] | Some s \<Rightarrow> s)"

text \<open>
  The value of \<open>main\<close> is the exit status it asks for: \<open>1\<close> where the source calls
  \<^verbatim>\<open>sys.exit(1)\<close>, which ends the function there, and \<open>0\<close> where it returns.
\<close>

definition main :: "lib \<Rightarrow> cli_world \<Rightarrow> args \<Rightarrow> (cli_effect, int) prog" where
  "main L C a =
     (case arg_action a of
        Analyze \<Rightarrow>
          if not_given (arg_doc_id a) then
            bind (emit (Stderr ''Error: --doc-id required for analyze action'')) (\<lambda>_. ret 1)
          else
            bind (analyze_document_cli C (arg_endpoint a) (JStr (given (arg_doc_id a)))
                    (arg_doc_type a)) (\<lambda>result.
            if truthy result then
              bind (emit (Stdout (dumps_indent2 L result))) (\<lambda>_. ret 0)
            else ret 0)
      | Batch \<Rightarrow>
          if not_given (arg_batch_file a) then
            bind (emit (Stderr ''Error: --batch-file required for batch action'')) (\<lambda>_. ret 1)
          else
            bind (lift (read_json_file C (given (arg_batch_file a)))) (\<lambda>doc_ids.
            bind (batch_analyze L C (arg_endpoint a) doc_ids (arg_doc_type a)) (\<lambda>results.
            bind (emit (Stdout (dumps_indent2 L (JArr results)))) (\<lambda>_. ret 0)))
      | Stats \<Rightarrow>
          bind (get_stats C (arg_endpoint a)) (\<lambda>stats.
          if truthy stats then
            bind (emit (Stdout (dumps_indent2 L stats))) (\<lambda>_. ret 0)
          else ret 0))"

text \<open>The exit status of the process: an exception that leaves \<open>main\<close> ends it with 1.\<close>

definition exit_status :: "exn + int \<Rightarrow> int" where
  "exit_status r = (case r of Inl e \<Rightarrow> 1 | Inr n \<Rightarrow> n)"

section \<open>Notions used to state the properties\<close>

text \<open>The value that \<^verbatim>\<open>analyze_document\<close> of the handler returns.\<close>

definition analysis_result_of :: "lib \<Rightarrow> world \<Rightarrow> json \<Rightarrow> json \<Rightarrow> json" where
  "analysis_result_of L W document_id document_type =
     (case fst (analyze_document L W document_id document_type []) of
        Inr r \<Rightarrow> r
      | Inl e \<Rightarrow> JNull)"

text \<open>
  The batch as the specification words it: one request per id, in input order, the first
  of them being request number \<open>k\<close>; \<open>answers\<close> lists what each request comes back with
  (\<open>Inr\<close> the JSON value of a successful request, \<open>Inl\<close> the failure), and
  \<open>successful_results\<close> keeps the values of the successful ones, in order.
\<close>

fun batch_requests :: "cli_world \<Rightarrow> string \<Rightarrow> string \<Rightarrow> nat \<Rightarrow> json list \<Rightarrow> http_request list" where
  "batch_requests C endpoint_url doc_type k [] = []"
| "batch_requests C endpoint_url doc_type k (doc_id # rest) =
     analyze_request C endpoint_url doc_id doc_type k
     # batch_requests C endpoint_url doc_type (Suc k) rest"

fun answers :: "cli_world \<Rightarrow> string \<Rightarrow> string \<Rightarrow> nat \<Rightarrow> json list \<Rightarrow> (exn + json) list" where
  "answers C endpoint_url doc_type k [] = []"
| "answers C endpoint_url doc_type k (doc_id # rest) =
     response_json (http C k (analyze_request C endpoint_url doc_id doc_type k))
     # answers C endpoint_url doc_type (Suc k) rest"

definition successful_results :: "(exn + json) list \<Rightarrow> json list" where
  "successful_results xs = concat (map (\<lambda>a. case a of Inl e \<Rightarrow> [] | Inr v \<Rightarrow> [v]) xs)"

definition failed_requests :: "(exn + json) list \<Rightarrow> nat" where
  "failed_requests xs = length (filter isl xs)"

text \<open>A failure that the \<^verbatim>\<open>except requests.exceptions.RequestException\<close> clause catches.\<close>

definition caught_failure :: "exn + json \<Rightarrow> bool" where
  "caught_failure a = (case a of Inl e \<Rightarrow> is_RequestException e | Inr v \<Rightarrow> True)"

section \<open>Concrete inputs\<close>

text \<open>
  A stand-in for the library parameters, to run the model on concrete inputs: a serializer
  for \<^verbatim>\<open>json.dumps\<close> and \<^verbatim>\<open>str\<close>, and a parser that knows the request bodies used
  below and rejects every other text. The theorems hold for every library.
\<close>

definition quote_text :: "string \<Rightarrow> string" where
  "quote_text s =
     [CHR 0x22]
     @ concat (map (\<lambda>c. if c = CHR 0x22 \<or> c = CHR 0x5C then [CHR 0x5C, c] else [c]) s)
     @ [CHR 0x22]"

fun join_text :: "string \<Rightarrow> string list \<Rightarrow> string" where
  "join_text sep [] = []"
| "join_text sep [x] = x"
| "join_text sep (x # y # ys) = x @ sep @ join_text sep (y # ys)"

fun json_text :: "json \<Rightarrow> string" where
  "json_text JNull = ''null''"
| "json_text (JBool b) = (if b then ''true'' else ''false'')"
| "json_text (JInt i) = show_int i"
| "json_text (JFloat r) =
     show_int (fst (quotient_of r)) @ ''/'' @ show_int (snd (quotient_of r))"
| "json_text (JStr s) = quote_text s"
| "json_text (JArr xs) = ''['' @ join_text '', '' (map json_text xs) @ '']''"
| "json_text (JObj kvs) =
     ''{'' @ join_text '', '' (map (\<lambda>(k, v). quote_text k @ '': '' @ json_text v) kvs) @ ''}''"

definition test_loads :: "string \<Rightarrow> exn + json" where
  \<open>test_loads s =
     (if s = ''{}'' then Inr (JObj [])
      else if s = ''{"document_id": ""}'' then Inr (JObj [(''document_id'', JStr [])])
      else if s = ''{"document_id": "doc-123", "document_type": "contract"}'' then
        Inr (JObj [(''document_id'', JStr ''doc-123''), (''document_type'', JStr ''contract'')])
      else Inl (Exn JSONDecodeError ''Expecting value: line 1 column 1 (char 0)''))\<close>

definition test_lib :: lib where
  "test_lib =
     \<lparr>loads = test_loads, dumps = json_text, dumps_indent2 = json_text,
      str_value = json_text\<rparr>"

definition event_doc_123 :: json where
  \<open>event_doc_123 =
     JObj [(''body'', JStr ''{"document_id": "doc-123", "document_type": "contract"}'')]\<close>

definition event_empty_id :: json where
  \<open>event_empty_id = JObj [(''body'', JStr ''{"document_id": ""}'')]\<close>

definition event_not_json :: json where
  "event_not_json = JObj [(''body'', JStr ''not json'')]"

definition event_no_body :: json where
  "event_no_body = JObj [(''httpMethod'', JStr ''POST'')]"

definition test_world :: world where
  "test_world =
     \<lparr>environ = (\<lambda>name. None),
      now_start = \<lparr>isoformat = ''2024-01-15T10:30:00.000100'', timestamp = 1705314600\<rparr>,
      now_id = \<lparr>isoformat = ''2024-01-15T10:30:00.120300'', timestamp = 1705314600\<rparr>,
      now_key = \<lparr>isoformat = ''2024-01-15T10:30:00.120400'', timestamp = 1705314600\<rparr>,
      now_error = \<lparr>isoformat = ''2024-01-15T10:30:00.000200'', timestamp = 1705314600\<rparr>,
      r_sleep = 0, r_score = 0, r_valid = 0, r_docs_per_hour = 0, r_docs_per_day = 0,
      r_p50 = 0, r_p95 = 0, r_p99 = 0,
      s3_put_object = (\<lambda>req. None),
      cloudwatch_put_metric_data = (\<lambda>req. None)\<rparr>"

text \<open>The same world with a metrics service that refuses every call.\<close>

definition world_cloudwatch_down :: world where
  "world_cloudwatch_down =
     test_world\<lparr>cloudwatch_put_metric_data :=
       (\<lambda>req. Some (Exn ClientError ''AccessDenied when calling PutMetricData''))\<rparr>"

text \<open>
  Client worlds. In \<open>world_offline\<close> every request fails to connect. In \<open>world_api_error\<close>
  the transport raises a plain \<^verbatim>\<open>Exception("API Error")\<close>, as the repository's test
  \<^verbatim>\<open>test_analyze_document_failure\<close> makes it do. In \<open>world_empty_reply\<close> every request is
  answered 200 with the JSON body \<^verbatim>\<open>{}\<close>. In \<open>world_b_fails\<close> the request for document
  \<^verbatim>\<open>b\<close> fails to connect and every other request is answered 200 with a JSON object
  naming the document.
\<close>

definition test_clock :: "nat \<Rightarrow> datetime" where
  "test_clock k = \<lparr>isoformat = ''2024-01-15T10:30:0'' @ show_nat k, timestamp = 1705314600\<rparr>"

definition world_offline :: cli_world where
  "world_offline =
     \<lparr>utcnow = test_clock,
      http = (\<lambda>k req. Inl (Exn ConnectionError ''Connection refused'')),
      read_json_file = (\<lambda>path. Inl (Exn FileNotFoundError path))\<rparr>"

definition world_api_error :: cli_world where
  "world_api_error =
     \<lparr>utcnow = test_clock,
      http = (\<lambda>k req. Inl (Exn OtherException ''API Error'')),
      read_json_file = (\<lambda>path. Inl (Exn FileNotFoundError path))\<rparr>"

definition world_empty_reply :: cli_world where
  "world_empty_reply =
     \<lparr>utcnow = test_clock,
      http = (\<lambda>k req. Inr \<lparr>status_code = 200, reason = ''OK'', resp_url = req_url req,
                              json_result = Inr (JObj [])\<rparr>),
      read_json_file = (\<lambda>path. Inl (Exn FileNotFoundError path))\<rparr>"

definition world_b_fails :: cli_world where
  "world_b_fails =
     \<lparr>utcnow = test_clock,
      http = (\<lambda>k req.
        case req_json req of
          None \<Rightarrow> Inl (Exn ConnectionError ''Connection refused'')
        | Some payload \<Rightarrow>
            if py_get payload ''document_id'' JNull = Inr (JStr ''b'') then
              Inl (Exn ConnectionError ''Connection refused'')
            else
              Inr \<lparr>status_code = 200, reason = ''OK'', resp_url = req_url req,
                   json_result = Inr (JObj [(''document_id'',
                     case py_get payload ''document_id'' JNull of Inl e \<Rightarrow> JNull | Inr v \<Rightarrow> v)])\<rparr>),
      read_json_file = (\<lambda>path. Inr (JArr [JStr ''a'', JStr ''b'', JStr ''c'']))\<rparr>"

text \<open>Command lines of the client, after \<^verbatim>\<open>parse_args\<close>.\<close>

definition args_analyze_no_id :: args where
  "args_analyze_no_id =
     \<lparr>arg_endpoint = ''https://api.vchasno.com'', arg_action = Analyze, arg_doc_id = None,
      arg_doc_type = ''contract'', arg_batch_file = None\<rparr>"

definition args_batch_no_file :: args where
  "args_batch_no_file =
     \<lparr>arg_endpoint = ''https://api.vchasno.com'', arg_action = Batch, arg_doc_id = None,
      arg_doc_type = ''contract'', arg_batch_file = None\<rparr>"

definition args_analyze :: args where
  "args_analyze =
     \<lparr>arg_endpoint = ''https://api.vchasno.com'', arg_action = Analyze,
      arg_doc_id = Some ''doc-789'', arg_doc_type = ''contract'', arg_batch_file = None\<rparr>"

definition args_stats :: args where
  "args_stats =
     \<lparr>arg_endpoint = ''https://api.vchasno.com'', arg_action = Stats, arg_doc_id = None,
      arg_doc_type = ''contract'', arg_batch_file = None\<rparr>"

section \<open>Proofs: the handler\<close>

lemmas prog_defs = ret_def raise_def lift_def emit_def bind_def try_except_def get_trace_def

lemma random_unit_bounds: "0 \<le> random_unit n \<and> random_unit n < 1"
proof -
  have "n mod 2 ^ 53 < (2::nat) ^ 53" by simp
  then have "(of_nat (n mod 2 ^ 53) :: rat) < of_nat (2 ^ 53)"
    unfolding of_nat_less_iff .
  then show ?thesis by (simp add: random_unit_def)
qed

lemma uniform_bounds:
  assumes "a \<le> b"
  shows "a \<le> uniform a b n \<and> uniform a b n \<le> b"
proof -
  have r: "0 \<le> random_unit n" "random_unit n \<le> 1"
    using random_unit_bounds [of n] by simp_all
  have "(b - a) * random_unit n \<le> (b - a) * 1"
    using assms r by (intro mult_left_mono) simp_all
  moreover have "0 \<le> (b - a) * random_unit n"
    using assms r by simp
  ultimately show ?thesis by (simp add: uniform_def)
qed

lemma analyze_document_run:
  "analyze_document L W document_id document_type tr =
     (Inr (analysis_result_of L W document_id document_type),
      tr @ [Sleep (uniform (1 / 20) (1 / 5) (r_sleep W))])"
  by (simp add: analysis_result_of_def analyze_document_def prog_defs)

lemma subscript_JObj:
  "subscript (JObj d) k =
     (case map_of d k of None \<Rightarrow> Inl (Exn KeyError ([CHR 0x27] @ k @ [CHR 0x27])) | Some x \<Rightarrow> Inr x)"
  by (simp add: subscript_def)

lemma analysis_result_fields:
  "subscript (analysis_result_of L W document_id document_type) ''analysis_id'' =
     Inr (JStr (''AN-'' @ py_format L document_id @ ''-''
                @ show_int (py_int (timestamp (now_id W)))))"
  "subscript (analysis_result_of L W document_id document_type) ''document_id'' = Inr document_id"
  "subscript (analysis_result_of L W document_id document_type) ''metrics'' =
     Inr (JObj
       [(''docs_per_hour'', JInt (randint 500 2000 (r_docs_per_hour W))),
        (''docs_per_day'', JInt (randint 10000 45000 (r_docs_per_day W))),
        (''latency_p50'', JFloat (uniform (1 / 10) (3 / 10) (r_p50 W))),
        (''latency_p95'', JFloat (uniform (4 / 10) (8 / 10) (r_p95 W))),
        (''latency_p99'', JFloat (uniform (9 / 10) (15 / 10) (r_p99 W)))])"
  by (simp_all add: analysis_result_of_def analyze_document_def prog_defs subscript_def)

text \<open>The three ways through the handler.\<close>

lemma handler_try_bad_body:
  assumes "request_body L event = Inl e"
  shows "handler_try L W event [] = (Inl e, [LogInfo (''Received event: '' @ dumps L event)])"
  using assms by (simp add: handler_try_def prog_defs)

lemma handler_try_rejected:
  assumes "request_body L event = Inr (JObj d)"
    and "map_of d ''document_id'' = None \<or> map_of d ''document_id'' = Some (JStr [])"
  shows "handler_try L W event [] =
     (Inr (JObj [(''statusCode'', JInt 400),
                 (''body'', JStr (dumps L (JObj [(''error'', JStr ''document_id is required'')])))]),
      [LogInfo (''Received event: '' @ dumps L event)])"
  using assms by (auto simp: handler_try_def prog_defs py_get_def)

lemma build_response_body_run:
  "build_response_body L W document_id (analysis_result_of L W document_id document_type) tr =
     (Inr (JObj
        [(''document_id'', document_id),
         (''analysis_id'', JStr (''AN-'' @ py_format L document_id @ ''-''
            @ show_int (py_int (timestamp (now_id W))))),
         (''status'', JStr ''completed''),
         (''result_location'',
            JStr (''s3://'' @ RESULTS_BUCKET W @ ''/'' @ result_key L W document_id)),
         (''metrics'', JObj
            [(''generation_rate'', JInt (randint 500 2000 (r_docs_per_hour W))),
             (''latency_p50'', JFloat (uniform (1 / 10) (3 / 10) (r_p50 W))),
             (''latency_p95'', JFloat (uniform (4 / 10) (8 / 10) (r_p95 W))),
             (''latency_p99'', JFloat (uniform (9 / 10) (15 / 10) (r_p99 W)))])]),
      tr)"
  by (simp add: build_response_body_def bind_def lift_def ret_def analysis_result_fields
      subscript_JObj)

lemma handler_try_stored:
  assumes "request_body L event = Inr (JObj d)"
    and "map_of d ''document_id'' = Some document_id"
    and "truthy document_id"
    and "py_get (JObj d) ''document_type'' (JStr ''contract'') = Inr document_type"
    and "py_get (JObj d) ''source'' (JStr ''unknown'') = Inr source"
    and "build_response_body L W document_id
           (analysis_result_of L W document_id document_type) tr0 = (Inr rb, tr0)"
    and "s3_put_object W (result_object L W document_id
           (analysis_result_of L W document_id document_type)) = None"
  shows "handler_try L W event [] =
     (Inr (JObj
        [(''statusCode'', JInt 200),
         (''headers'', JObj
            [(''Content-Type'', JStr ''application/json''),
             (''Access-Control-Allow-Origin'', JStr ''*'')]),
         (''body'', JStr (dumps L rb))]),
      [LogInfo (''Received event: '' @ dumps L event),
       Sleep (uniform (1 / 20) (1 / 5) (r_sleep W)),
       S3PutObject (result_object L W document_id
           (analysis_result_of L W document_id document_type)),
       SendMetrics document_type (analysis_result_of L W document_id document_type) source,
       LogInfo (''Analysis completed: '' @ str_value L rb)])"
proof -
  have rb: "build_response_body L W document_id
           (analysis_result_of L W document_id document_type) tr = (Inr rb, tr)" for tr
    using assms(6) by (simp add: build_response_body_run)
  show ?thesis
    using assms(1-5,7)
    by (simp add: handler_try_def bind_def lift_def emit_def ret_def py_get_def
        analyze_document_run s3_put_def send_metrics_def rb)
qed

lemma handler_try_store_failed:
  assumes "request_body L event = Inr (JObj d)"
    and "map_of d ''document_id'' = Some document_id"
    and "truthy document_id"
    and "py_get (JObj d) ''document_type'' (JStr ''contract'') = Inr document_type"
    and "s3_put_object W (result_object L W document_id
           (analysis_result_of L W document_id document_type)) = Some e"
  shows "handler_try L W event [] =
     (Inl e,
      [LogInfo (''Received event: '' @ dumps L event),
       Sleep (uniform (1 / 20) (1 / 5) (r_sleep W)),
       S3PutObject (result_object L W document_id
           (analysis_result_of L W document_id document_type))])"
  using assms
  by (simp add: handler_try_def bind_def lift_def emit_def ret_def raise_def py_get_def
      analyze_document_run s3_put_def)

lemma handler_except_run:
  "handler_except L W e tr =
     (case cloudwatch_put_metric_data W (analysis_errors_metric W) of
        None \<Rightarrow>
          (Inr (JObj
            [(''statusCode'', JInt 500),
             (''headers'', JObj [(''Content-Type'', JStr ''application/json'')]),
             (''body'', JStr (dumps L (JObj
                [(''error'', JStr ''Internal server error''),
                 (''message'', JStr (exn_message e))])))]),
           tr @ [LogError (''Error processing request: '' @ exn_message e),
                 CloudWatchPutMetricData (analysis_errors_metric W)])
      | Some e' \<Rightarrow>
          (Inl e',
           tr @ [LogError (''Error processing request: '' @ exn_message e),
                 CloudWatchPutMetricData (analysis_errors_metric W)]))"
  by (simp add: handler_except_def cloudwatch_put_def prog_defs split: option.splits)

lemma lambda_handler_unfold:
  "lambda_handler L W event =
     (case handler_try L W event [] of
        (Inl e, tr) \<Rightarrow> handler_except L W e tr
      | (Inr x, tr) \<Rightarrow> (Inr x, tr))"
  by (simp add: lambda_handler_def try_except_def split: prod.splits sum.splits)

text \<open>The concrete inputs, evaluated.\<close>

lemma body_doc_123:
  "request_body test_lib event_doc_123 =
     Inr (JObj [(''document_id'', JStr ''doc-123''), (''document_type'', JStr ''contract'')])"
  by (simp add: request_body_def py_get_def event_doc_123_def test_lib_def test_loads_def)

lemma body_not_json:
  "request_body test_lib event_not_json =
     Inl (Exn JSONDecodeError ''Expecting value: line 1 column 1 (char 0)'')"
  by (simp add: request_body_def py_get_def event_not_json_def test_lib_def test_loads_def)

lemma test_analysis_id:
  "py_format test_lib (JStr ''doc-123'') = ''doc-123''"
  "show_int (py_int (timestamp (now_id test_world))) = ''1705314600''"
  by (simp_all add: py_format_def test_world_def show_int_def py_int_def show_nat.simps
      digit_char_def)

lemma test_result_key:
  "result_key test_lib test_world (JStr ''doc-123'') =
     ''analysis/doc-123/2024-01-15T10:30:00.120400.json''"
  by (simp add: result_key_def py_format_def test_world_def)

lemma test_draws:
  "randint 500 2000 (r_docs_per_hour test_world) = 500"
  "uniform (1 / 10) (3 / 10) (r_p50 test_world) = 1 / 10"
  "uniform (2 / 5) (4 / 5) (r_p95 test_world) = 2 / 5"
  "uniform (9 / 10) (3 / 2) (r_p99 test_world) = 9 / 10"
  by (simp_all add: randint_def uniform_def random_unit_def test_world_def)

lemma valid_request_trace:
  assumes "request_body L event = Inr (JObj d)"
    and "map_of d ''document_id'' = Some document_id"
    and "truthy document_id"
    and "py_get (JObj d) ''document_type'' (JStr ''contract'') = Inr document_type"
  shows "s3_requests (snd (lambda_handler L W event)) =
           [result_object L W document_id (analysis_result_of L W document_id document_type)]"
proof (cases "s3_put_object W (result_object L W document_id
           (analysis_result_of L W document_id document_type))")
  case None
  obtain source where src: "py_get (JObj d) ''source'' (JStr ''unknown'') = Inr source"
    by (simp add: py_get_def)
  obtain rb where rb: "build_response_body L W document_id
           (analysis_result_of L W document_id document_type) [] = (Inr rb, [])"
    by (simp add: build_response_body_run)
  show ?thesis
    by (simp add: lambda_handler_unfold handler_try_stored [OF assms src rb None]
        s3_requests_def)
next
  case (Some e)
  show ?thesis
    by (simp add: lambda_handler_unfold handler_try_store_failed [OF assms Some]
        handler_except_run s3_requests_def split: option.splits)
qed

text \<open>
  Claim C1. When the request body is a JSON object in which \<open>document_id\<close> is absent or
  the empty string, the handler returns the response with status code 400 and body
  \<^verbatim>\<open>{"error": "document_id is required"}\<close>, and the whole trace of the invocation is the one
  log line written on entry: no analysis ran (no \<open>Sleep\<close>) and nothing was written to the
  object store (no \<open>S3PutObject\<close>).
\<close>

theorem C1_missing_document_id_rejected:
  assumes "request_body L event = Inr (JObj d)"
    and "map_of d ''document_id'' = None \<or> map_of d ''document_id'' = Some (JStr [])"
  shows "lambda_handler L W event =
     (Inr (JObj [(''statusCode'', JInt 400),
                 (''body'', JStr (dumps L (JObj [(''error'', JStr ''document_id is required'')])))]),
      [LogInfo (''Received event: '' @ dumps L event)])"
  by (simp add: lambda_handler_unfold handler_try_rejected [OF assms])

theorem C1_missing_document_id_rejected_witness:
  \<open>request_body test_lib event_empty_id = Inr (JObj [(''document_id'', JStr [])])
   \<and> fst (lambda_handler test_lib test_world event_empty_id) =
       Inr (JObj [(''statusCode'', JInt 400),
                  (''body'', JStr ''{"error": "document_id is required"}'')])
   \<and> s3_requests (snd (lambda_handler test_lib test_world event_empty_id)) = []
   \<and> request_body test_lib event_no_body = Inr (JObj [])
   \<and> fst (lambda_handler test_lib test_world event_no_body) =
       Inr (JObj [(''statusCode'', JInt 400),
                  (''body'', JStr ''{"error": "document_id is required"}'')])\<close>
proof -
  have b1: "request_body test_lib event_empty_id = Inr (JObj [(''document_id'', JStr [])])"
    by (simp add: request_body_def py_get_def event_empty_id_def test_lib_def test_loads_def)
  have b2: "request_body test_lib event_no_body = Inr (JObj [])"
    by (simp add: request_body_def py_get_def event_no_body_def test_lib_def test_loads_def)
  have d: "dumps test_lib (JObj [(''error'', JStr ''document_id is required'')]) =
           [CHR 0x7B, CHR 0x22] @ ''error'' @ [CHR 0x22] @ '': '' @ [CHR 0x22]
           @ ''document_id is required'' @ [CHR 0x22, CHR 0x7D]"
    by (simp add: test_lib_def quote_text_def)
  show ?thesis
    using b1 b2 d
      C1_missing_document_id_rejected [OF b1, of test_world]
      C1_missing_document_id_rejected [OF b2, of test_world]
    by (simp add: s3_requests_def)
qed

text \<open>
  Claim C2. For a request whose \<open>document_id\<close> is a non-empty string \<open>s\<close>, the result that
  the analysis step produces and the handler sends to the object store has an
  \<open>analysis_id\<close> that contains \<open>s\<close> as a substring and a \<open>document_id\<close> field equal to \<open>s\<close>.
\<close>

theorem C2_analysis_id_contains_document_id:
  assumes "request_body L event = Inr (JObj d)"
    and "map_of d ''document_id'' = Some (JStr s)"
    and "s \<noteq> []"
    and "py_get (JObj d) ''document_type'' (JStr ''contract'') = Inr document_type"
  shows "\<exists>analysis_id.
       subscript (analysis_result_of L W (JStr s) document_type) ''analysis_id''
         = Inr (JStr analysis_id)
     \<and> sublist s analysis_id
     \<and> subscript (analysis_result_of L W (JStr s) document_type) ''document_id''
         = Inr (JStr s)
     \<and> s3_requests (snd (lambda_handler L W event)) =
         [result_object L W (JStr s) (analysis_result_of L W (JStr s) document_type)]"
proof -
  have t: "truthy (JStr s)" using assms(3) by simp
  have "sublist s (''AN-'' @ s @ ''-'' @ show_int (py_int (timestamp (now_id W))))"
    by (rule sublist_appendI)
  then show ?thesis
    using valid_request_trace [OF assms(1,2) t assms(4), of W]
    by (simp add: analysis_result_fields py_format_def)
qed

theorem C2_analysis_id_contains_document_id_witness:
  "request_body test_lib event_doc_123 =
     Inr (JObj [(''document_id'', JStr ''doc-123''), (''document_type'', JStr ''contract'')])
   \<and> subscript (analysis_result_of test_lib test_world (JStr ''doc-123'') (JStr ''contract''))
         ''analysis_id'' = Inr (JStr ''AN-doc-123-1705314600'')
   \<and> sublist ''doc-123'' ''AN-doc-123-1705314600''
   \<and> subscript (analysis_result_of test_lib test_world (JStr ''doc-123'') (JStr ''contract''))
         ''document_id'' = Inr (JStr ''doc-123'')"
proof -
  have dt: "py_get (JObj [(''document_id'', JStr ''doc-123''), (''document_type'', JStr ''contract'')])
              ''document_type'' (JStr ''contract'') = Inr (JStr ''contract'')"
    by (simp add: py_get_def)
  have ne: "''doc-123'' \<noteq> []" by simp
  have id: "map_of [(''document_id'', JStr ''doc-123''), (''document_type'', JStr ''contract'')]
              ''document_id'' = Some (JStr ''doc-123'')"
    by simp
  show ?thesis
    using C2_analysis_id_contains_document_id [OF body_doc_123 id ne dt, of test_world]
    by (auto simp: body_doc_123 analysis_result_fields test_analysis_id)
qed

text \<open>
  Claim C3. In every result of \<^verbatim>\<open>analyze_document\<close>, whatever the random generator
  gives, \<open>latency_p50 \<le> latency_p95 \<le> latency_p99\<close>: the three values are drawn from the
  disjoint ranges \<open>[0.1, 0.3]\<close>, \<open>[0.4, 0.8]\<close> and \<open>[0.9, 1.5]\<close>.
\<close>

theorem C3_latency_percentiles_ordered:
  "\<exists>m p50 p95 p99.
       fst (analyze_document L W document_id document_type tr)
         = Inr (analysis_result_of L W document_id document_type)
     \<and> subscript (analysis_result_of L W document_id document_type) ''metrics'' = Inr m
     \<and> subscript m ''latency_p50'' = Inr (JFloat p50)
     \<and> subscript m ''latency_p95'' = Inr (JFloat p95)
     \<and> subscript m ''latency_p99'' = Inr (JFloat p99)
     \<and> p50 \<le> p95 \<and> p95 \<le> p99"
proof -
  have a: "uniform (1 / 10) (3 / 10) (r_p50 W) \<le> 3 / 10"
    using uniform_bounds [of "1 / 10" "3 / 10" "r_p50 W"] by simp
  have b: "4 / 10 \<le> uniform (4 / 10) (8 / 10) (r_p95 W)"
    "uniform (4 / 10) (8 / 10) (r_p95 W) \<le> 8 / 10"
    using uniform_bounds [of "4 / 10" "8 / 10" "r_p95 W"] by simp_all
  have c: "9 / 10 \<le> uniform (9 / 10) (15 / 10) (r_p99 W)"
    using uniform_bounds [of "9 / 10" "15 / 10" "r_p99 W"] by simp
  have "uniform (1 / 10) (3 / 10) (r_p50 W) \<le> uniform (4 / 10) (8 / 10) (r_p95 W)"
    using a b by linarith
  moreover have "uniform (4 / 10) (8 / 10) (r_p95 W) \<le> uniform (9 / 10) (15 / 10) (r_p99 W)"
    using b c by linarith
  ultimately show ?thesis
    by (simp add: analyze_document_run analysis_result_fields subscript_JObj)
qed

text \<open>
  Claim C5 says that the emission of the \<open>AnalysisErrors\<close> metric in the error path cannot
  throw, so that the handler still returns its 500 response. The call at lines 94 to 104
  stands unguarded inside the \<^verbatim>\<open>except\<close> block: for the event whose body is the text
  \<^verbatim>\<open>not json\<close> and a metrics service that refuses the call, the exception of the
  metrics service leaves the handler and no response is returned.
\<close>

theorem C5_error_metric_failure_leaves_handler:
  "request_body test_lib event_not_json =
     Inl (Exn JSONDecodeError ''Expecting value: line 1 column 1 (char 0)'')
   \<and> cloudwatch_put_metric_data world_cloudwatch_down
        (analysis_errors_metric world_cloudwatch_down) =
       Some (Exn ClientError ''AccessDenied when calling PutMetricData'')
   \<and> fst (lambda_handler test_lib world_cloudwatch_down event_not_json) =
       Inl (Exn ClientError ''AccessDenied when calling PutMetricData'')"
  by (simp add: lambda_handler_unfold handler_try_bad_body [OF body_not_json]
      handler_except_run body_not_json world_cloudwatch_down_def)

text \<open>
  Claim C7. A request with a truthy \<open>document_id\<close> whose result the object store accepts
  is answered with status code 200 and a body that holds the request's \<open>document_id\<close>, the
  \<open>analysis_id\<close> of the result, \<open>status\<close> equal to \<^verbatim>\<open>completed\<close>, a \<open>result_location\<close>
  that starts with \<^verbatim>\<open>s3://\<close>, and a \<open>metrics\<close> object taken from the result.
\<close>

theorem C7_success_response_shape:
  assumes "request_body L event = Inr (JObj d)"
    and "map_of d ''document_id'' = Some document_id"
    and "truthy document_id"
    and "py_get (JObj d) ''document_type'' (JStr ''contract'') = Inr document_type"
    and "s3_put_object W (result_object L W document_id
           (analysis_result_of L W document_id document_type)) = None"
  shows "\<exists>analysis_id m rate p50 p95 p99.
       subscript (analysis_result_of L W document_id document_type) ''analysis_id''
         = Inr analysis_id
     \<and> subscript (analysis_result_of L W document_id document_type) ''metrics'' = Inr m
     \<and> subscript m ''docs_per_hour'' = Inr rate
     \<and> subscript m ''latency_p50'' = Inr p50
     \<and> subscript m ''latency_p95'' = Inr p95
     \<and> subscript m ''latency_p99'' = Inr p99
     \<and> fst (lambda_handler L W event) =
         Inr (JObj
           [(''statusCode'', JInt 200),
            (''headers'', JObj
               [(''Content-Type'', JStr ''application/json''),
                (''Access-Control-Allow-Origin'', JStr ''*'')]),
            (''body'', JStr (dumps L (JObj
               [(''document_id'', document_id),
                (''analysis_id'', analysis_id),
                (''status'', JStr ''completed''),
                (''result_location'',
                   JStr (''s3://'' @ RESULTS_BUCKET W @ ''/'' @ result_key L W document_id)),
                (''metrics'', JObj
                   [(''generation_rate'', rate),
                    (''latency_p50'', p50),
                    (''latency_p95'', p95),
                    (''latency_p99'', p99)])])))])"
proof -
  obtain source where src: "py_get (JObj d) ''source'' (JStr ''unknown'') = Inr source"
    by (simp add: py_get_def)
  show ?thesis
    by (simp add: lambda_handler_unfold analysis_result_fields subscript_JObj
        handler_try_stored [OF assms(1-4) src build_response_body_run assms(5)])
qed

theorem C7_success_response_shape_witness:
  "request_body test_lib event_doc_123 =
     Inr (JObj [(''document_id'', JStr ''doc-123''), (''document_type'', JStr ''contract'')])
   \<and> truthy (JStr ''doc-123'')
   \<and> s3_put_object test_world (result_object test_lib test_world (JStr ''doc-123'')
        (analysis_result_of test_lib test_world (JStr ''doc-123'') (JStr ''contract''))) = None
   \<and> fst (lambda_handler test_lib test_world event_doc_123) =
         Inr (JObj
           [(''statusCode'', JInt 200),
            (''headers'', JObj
               [(''Content-Type'', JStr ''application/json''),
                (''Access-Control-Allow-Origin'', JStr ''*'')]),
            (''body'', JStr (dumps test_lib (JObj
               [(''document_id'', JStr ''doc-123''),
                (''analysis_id'', JStr ''AN-doc-123-1705314600''),
                (''status'', JStr ''completed''),
                (''result_location'',
                   JStr ''s3://vchasno-analysis-results/analysis/doc-123/2024-01-15T10:30:00.120400.json''),
                (''metrics'', JObj
                   [(''generation_rate'', JInt 500),
                    (''latency_p50'', JFloat (1 / 10)),
                    (''latency_p95'', JFloat (2 / 5)),
                    (''latency_p99'', JFloat (9 / 10))])])))])"
proof -
  have dt: "py_get (JObj [(''document_id'', JStr ''doc-123''), (''document_type'', JStr ''contract'')])
              ''document_type'' (JStr ''contract'') = Inr (JStr ''contract'')"
    by (simp add: py_get_def)
  have id: "map_of [(''document_id'', JStr ''doc-123''), (''document_type'', JStr ''contract'')]
              ''document_id'' = Some (JStr ''doc-123'')"
    by simp
  have t: "truthy (JStr ''doc-123'')" by simp
  have s3: "s3_put_object test_world (result_object test_lib test_world (JStr ''doc-123'')
        (analysis_result_of test_lib test_world (JStr ''doc-123'') (JStr ''contract''))) = None"
    by (simp add: test_world_def)
  have bucket: "RESULTS_BUCKET test_world = ''vchasno-analysis-results''"
    by (simp add: RESULTS_BUCKET_def test_world_def)
  show ?thesis
    using C7_success_response_shape [OF body_doc_123 id t dt s3]
    by (auto simp: body_doc_123 s3 analysis_result_fields subscript_JObj test_analysis_id
        test_result_key bucket test_draws)
qed

text \<open>
  Claim C8. For every request with a truthy \<open>document_id\<close>, the handler calls
  \<^verbatim>\<open>s3.put_object\<close> exactly once in the invocation, whatever the services answer: the key
  is \<^verbatim>\<open>analysis/{document_id}/{timestamp}.json\<close> with the \<^verbatim>\<open>isoformat()\<close> of the clock, the
  content type is \<^verbatim>\<open>application/json\<close> and the body is the serialized result of the
  analysis. When the handler answers 200, the object store accepted that one object.
\<close>

theorem C8_result_stored_once:
  assumes "request_body L event = Inr (JObj d)"
    and "map_of d ''document_id'' = Some document_id"
    and "truthy document_id"
    and "py_get (JObj d) ''document_type'' (JStr ''contract'') = Inr document_type"
  shows "s3_requests (snd (lambda_handler L W event)) =
           [result_object L W document_id (analysis_result_of L W document_id document_type)]
     \<and> result_object L W document_id (analysis_result_of L W document_id document_type) =
         \<lparr>Bucket = RESULTS_BUCKET W,
          Key = ''analysis/'' @ py_format L document_id @ ''/'' @ isoformat (now_key W)
                @ ''.json'',
          Body = dumps L (analysis_result_of L W document_id document_type),
          ContentType = ''application/json''\<rparr>
     \<and> (fst (lambda_handler L W event) = Inr response
          \<and> subscript response ''statusCode'' = Inr (JInt 200)
        \<longrightarrow> s3_put_object W
              (result_object L W document_id
                 (analysis_result_of L W document_id document_type)) = None)"
proof (intro conjI impI)
  show "s3_requests (snd (lambda_handler L W event)) =
           [result_object L W document_id (analysis_result_of L W document_id document_type)]"
    by (rule valid_request_trace [OF assms])
next
  show "result_object L W document_id (analysis_result_of L W document_id document_type) =
         \<lparr>Bucket = RESULTS_BUCKET W,
          Key = ''analysis/'' @ py_format L document_id @ ''/'' @ isoformat (now_key W)
                @ ''.json'',
          Body = dumps L (analysis_result_of L W document_id document_type),
          ContentType = ''application/json''\<rparr>"
    by (simp add: result_object_def result_key_def)
next
  assume ok: "fst (lambda_handler L W event) = Inr response
          \<and> subscript response ''statusCode'' = Inr (JInt 200)"
  show "s3_put_object W
              (result_object L W document_id
                 (analysis_result_of L W document_id document_type)) = None"
  proof (cases "s3_put_object W
              (result_object L W document_id
                 (analysis_result_of L W document_id document_type))")
    case None
    then show ?thesis .
  next
    case (Some e)
    have "fst (lambda_handler L W event) = Inr response \<Longrightarrow>
          subscript response ''statusCode'' = Inr (JInt 500)"
      by (auto simp: lambda_handler_unfold handler_try_store_failed [OF assms Some]
          handler_except_run subscript_JObj split: option.splits)
    then show ?thesis using ok by simp
  qed
qed

theorem C8_result_stored_once_witness:
  "request_body test_lib event_doc_123 =
     Inr (JObj [(''document_id'', JStr ''doc-123''), (''document_type'', JStr ''contract'')])
   \<and> truthy (JStr ''doc-123'')
   \<and> s3_requests (snd (lambda_handler test_lib test_world event_doc_123)) =
     [\<lparr>Bucket = ''vchasno-analysis-results'',
       Key = ''analysis/doc-123/2024-01-15T10:30:00.120400.json'',
       Body = dumps test_lib
         (analysis_result_of test_lib test_world (JStr ''doc-123'') (JStr ''contract'')),
       ContentType = ''application/json''\<rparr>]
   \<and> (\<exists>response. fst (lambda_handler test_lib test_world event_doc_123) = Inr response
          \<and> subscript response ''statusCode'' = Inr (JInt 200))
   \<and> s3_put_object test_world
        (result_object test_lib test_world (JStr ''doc-123'')
           (analysis_result_of test_lib test_world (JStr ''doc-123'') (JStr ''contract''))) = None"
proof -
  have dt: "py_get (JObj [(''document_id'', JStr ''doc-123''), (''document_type'', JStr ''contract'')])
              ''document_type'' (JStr ''contract'') = Inr (JStr ''contract'')"
    by (simp add: py_get_def)
  have id: "map_of [(''document_id'', JStr ''doc-123''), (''document_type'', JStr ''contract'')]
              ''document_id'' = Some (JStr ''doc-123'')"
    by simp
  have src: "py_get (JObj [(''document_id'', JStr ''doc-123''), (''document_type'', JStr ''contract'')])
              ''source'' (JStr ''unknown'') = Inr (JStr ''unknown'')"
    by (simp add: py_get_def)
  have t: "truthy (JStr ''doc-123'')" by simp
  have s3: "s3_put_object test_world (result_object test_lib test_world (JStr ''doc-123'')
        (analysis_result_of test_lib test_world (JStr ''doc-123'') (JStr ''contract''))) = None"
    by (simp add: test_world_def)
  have any: "s3_put_object test_world r = None" for r
    by (simp add: test_world_def)
  have bucket: "RESULTS_BUCKET test_world = ''vchasno-analysis-results''"
    by (simp add: RESULTS_BUCKET_def test_world_def)
  have key: "isoformat (now_key test_world) = ''2024-01-15T10:30:00.120400''"
    by (simp add: test_world_def)
  have ok: "\<exists>response. fst (lambda_handler test_lib test_world event_doc_123) = Inr response
          \<and> subscript response ''statusCode'' = Inr (JInt 200)"
    by (simp add: lambda_handler_unfold subscript_JObj
        handler_try_stored [OF body_doc_123 id t dt src build_response_body_run s3])
  show ?thesis
    using C8_result_stored_once [OF body_doc_123 id t dt, of test_world] ok
    by (simp add: body_doc_123 bucket key py_format_def any)
qed




section \<open>Proofs: the client\<close>

lemma http_requests_append [simp]:
  "http_requests (tr @ tr') = http_requests tr @ http_requests tr'"
  by (simp add: http_requests_def)

lemma http_requests_single [simp]:
  "http_requests [HttpRequest r] = [r]"
  "http_requests [Stdout s] = []"
  "http_requests [Stderr s] = []"
  "http_requests [] = []"
  by (simp_all add: http_requests_def)

lemma http_requests_Cons [simp]:
  "http_requests (HttpRequest r # tr) = r # http_requests tr"
  "http_requests (Stdout s # tr) = http_requests tr"
  "http_requests (Stderr s # tr) = http_requests tr"
  by (simp_all add: http_requests_def)

lemma requests_sent_append [simp]:
  "requests_sent (tr @ tr') = requests_sent tr + requests_sent tr'"
  by (simp add: requests_sent_def)

lemma requests_sent_Cons [simp]:
  "requests_sent (HttpRequest r # tr) = Suc (requests_sent tr)"
  "requests_sent (Stdout s # tr) = requests_sent tr"
  "requests_sent (Stderr s # tr) = requests_sent tr"
  "requests_sent [] = 0"
  by (simp_all add: requests_sent_def)

text \<open>One call of the client's \<open>analyze_document\<close>, by what the request comes back with.\<close>

lemma analyze_document_cli_run:
  "analyze_document_cli C endpoint_url doc_id doc_type tr =
     (case response_json (http C (requests_sent tr)
              (analyze_request C endpoint_url doc_id doc_type (requests_sent tr))) of
        Inr v \<Rightarrow>
          (Inr v,
           tr @ [HttpRequest (analyze_request C endpoint_url doc_id doc_type (requests_sent tr))])
      | Inl e \<Rightarrow>
          if is_RequestException e then
            (Inr JNull,
             tr @ [HttpRequest (analyze_request C endpoint_url doc_id doc_type (requests_sent tr)),
                   Stderr (''Error analyzing document: '' @ exn_message e)])
          else
            (Inl e,
             tr @ [HttpRequest (analyze_request C endpoint_url doc_id doc_type (requests_sent tr))]))"
  by (simp add: analyze_document_cli_def send_request_def prog_defs response_json_def
      split: sum.splits)

lemma get_stats_run:
  "get_stats C endpoint_url tr =
     (case response_json (http C (requests_sent tr) (stats_request endpoint_url)) of
        Inr v \<Rightarrow> (Inr v, tr @ [HttpRequest (stats_request endpoint_url)])
      | Inl e \<Rightarrow>
          if is_RequestException e then
            (Inr JNull,
             tr @ [HttpRequest (stats_request endpoint_url),
                   Stderr (''Error fetching stats: '' @ exn_message e)])
          else (Inl e, tr @ [HttpRequest (stats_request endpoint_url)]))"
  by (simp add: get_stats_def send_request_def prog_defs response_json_def
      split: sum.splits)

lemma batch_loop_run:
  assumes "list_all caught_failure (answers C endpoint_url doc_type (requests_sent tr) ids)"
  shows "\<exists>tr'.
      batch_loop L C endpoint_url doc_type ids results tr =
        (Inr (results @ filter truthy
               (successful_results (answers C endpoint_url doc_type (requests_sent tr) ids))),
         tr')
    \<and> http_requests tr' =
        http_requests tr @ batch_requests C endpoint_url doc_type (requests_sent tr) ids"
  using assms
proof (induction ids arbitrary: tr results)
  case Nil
  then show ?case by (simp add: ret_def successful_results_def)
next
  case (Cons doc_id rest)
  let ?k = "requests_sent tr"
  let ?tr1 = "tr @ [Stdout (''Analyzing document '' @ py_format L doc_id @ ''...'')]"
  let ?req = "analyze_request C endpoint_url doc_id doc_type ?k"
  let ?a = "response_json (http C ?k ?req)"
  have k1: "requests_sent ?tr1 = ?k" by simp
  have ok: "caught_failure ?a"
    and rest_ok: "list_all caught_failure (answers C endpoint_url doc_type (Suc ?k) rest)"
    using Cons.prems by simp_all
  show ?case
  proof (cases ?a)
    case (Inr v)
    let ?tr2 = "?tr1 @ [HttpRequest ?req]"
    have k2: "requests_sent ?tr2 = Suc ?k" by simp
    have step: "analyze_document_cli C endpoint_url doc_id doc_type ?tr1 = (Inr v, ?tr2)"
      using Inr by (simp add: analyze_document_cli_run)
    obtain tr' where
      "batch_loop L C endpoint_url doc_type rest
          (if truthy v then results @ [v] else results) ?tr2 =
        (Inr ((if truthy v then results @ [v] else results) @ filter truthy
               (successful_results (answers C endpoint_url doc_type (Suc ?k) rest))), tr')"
      and "http_requests tr' =
        http_requests ?tr2 @ batch_requests C endpoint_url doc_type (Suc ?k) rest"
      using Cons.IH [of ?tr2 "if truthy v then results @ [v] else results"] rest_ok k2
      by auto
    then show ?thesis
      using Inr step
      by (simp add: bind_def emit_def successful_results_def)
  next
    case (Inl e)
    let ?tr2 = "?tr1 @ [HttpRequest ?req, Stderr (''Error analyzing document: '' @ exn_message e)]"
    have re: "is_RequestException e" using ok Inl by (simp add: caught_failure_def)
    have k2: "requests_sent ?tr2 = Suc ?k" by simp
    have step: "analyze_document_cli C endpoint_url doc_id doc_type ?tr1 = (Inr JNull, ?tr2)"
      using Inl re by (simp add: analyze_document_cli_run)
    obtain tr' where
      "batch_loop L C endpoint_url doc_type rest results ?tr2 =
        (Inr (results @ filter truthy
               (successful_results (answers C endpoint_url doc_type (Suc ?k) rest))), tr')"
      and "http_requests tr' =
        http_requests ?tr2 @ batch_requests C endpoint_url doc_type (Suc ?k) rest"
      using Cons.IH [of ?tr2 results] rest_ok k2
      by auto
    then show ?thesis
      using Inl step
      by (simp add: bind_def emit_def successful_results_def)
  qed
qed

lemma answers_length: "length (answers C endpoint_url doc_type k ids) = length ids"
  by (induction ids arbitrary: k) simp_all

lemma successes_and_failures:
  "length (successful_results xs) + failed_requests xs = length xs"
  by (induction xs) (auto simp: successful_results_def failed_requests_def split: sum.splits)

lemma analyze_document_cli_tolerates_request_exceptions:
  assumes "response_json (http C (requests_sent tr)
             (analyze_request C endpoint_url doc_id doc_type (requests_sent tr))) = Inl e"
    and "is_RequestException e"
  shows "analyze_document_cli C endpoint_url doc_id doc_type tr =
     (Inr JNull,
      tr @ [HttpRequest (analyze_request C endpoint_url doc_id doc_type (requests_sent tr)),
            Stderr (''Error analyzing document: '' @ exn_message e)])"
  using assms by (simp add: analyze_document_cli_run)

lemma test_answers_b_fails:
  "answers world_b_fails ''https://api.vchasno.com'' ''contract'' 0
      [JStr ''a'', JStr ''b'', JStr ''c''] =
     [Inr (JObj [(''document_id'', JStr ''a'')]),
      Inl (Exn ConnectionError ''Connection refused''),
      Inr (JObj [(''document_id'', JStr ''c'')])]"
  by (simp add: world_b_fails_def analyze_request_def response_json_def raise_for_status_def
      py_get_def)

text \<open>
  Claim C4, amended. When every failing request fails with an exception that the client
  catches, \<^verbatim>\<open>batch_analyze\<close> sends one request per id, in input order, and returns, in
  input order, the JSON values of the successful requests that are truthy: the guard
  \<^verbatim>\<open>if result\<close> also skips a successful request whose value is empty, zero, false or
  null. With \<open>N\<close> ids, \<open>K\<close> failed requests and \<open>E\<close> successful requests of falsy value it
  returns \<open>N - K - E\<close> results.
\<close>

theorem C4_batch_collects_truthy_results:
  assumes "list_all caught_failure (answers C endpoint_url doc_type (requests_sent tr) ids)"
  shows "\<exists>results tr'.
       batch_analyze L C endpoint_url (JArr ids) doc_type tr = (Inr results, tr')
     \<and> results = filter truthy
         (successful_results (answers C endpoint_url doc_type (requests_sent tr) ids))
     \<and> http_requests tr' =
         http_requests tr @ batch_requests C endpoint_url doc_type (requests_sent tr) ids
     \<and> length results
         + length (filter (\<lambda>v. \<not> truthy v)
             (successful_results (answers C endpoint_url doc_type (requests_sent tr) ids)))
         + failed_requests (answers C endpoint_url doc_type (requests_sent tr) ids)
         = length ids"
proof -
  let ?xs = "answers C endpoint_url doc_type (requests_sent tr) ids"
  obtain tr' where run:
    "batch_loop L C endpoint_url doc_type ids [] tr =
       (Inr ([] @ filter truthy (successful_results ?xs)), tr')"
    and reqs: "http_requests tr' =
       http_requests tr @ batch_requests C endpoint_url doc_type (requests_sent tr) ids"
    using batch_loop_run [OF assms, of L "[]"] by blast
  have "length (filter truthy (successful_results ?xs))
        + length (filter (\<lambda>v. \<not> truthy v) (successful_results ?xs))
        = length (successful_results ?xs)"
    by (rule sum_length_filter_compl)
  then have count: "length (filter truthy (successful_results ?xs))
        + length (filter (\<lambda>v. \<not> truthy v) (successful_results ?xs))
        + failed_requests ?xs = length ids"
    using successes_and_failures [of ?xs] answers_length [of C endpoint_url doc_type "requests_sent tr" ids]
    by simp
  show ?thesis
    using run reqs count
    by (simp add: batch_analyze_def py_iter_def bind_def lift_def)
qed

theorem C4_batch_collects_truthy_results_witness:
  "list_all caught_failure
     (answers world_b_fails ''https://api.vchasno.com'' ''contract'' 0
        [JStr ''a'', JStr ''b'', JStr ''c''])
   \<and> fst (batch_analyze test_lib world_b_fails ''https://api.vchasno.com''
            (JArr [JStr ''a'', JStr ''b'', JStr ''c'']) ''contract'' []) =
       Inr [JObj [(''document_id'', JStr ''a'')], JObj [(''document_id'', JStr ''c'')]]
   \<and> http_requests (snd (batch_analyze test_lib world_b_fails ''https://api.vchasno.com''
            (JArr [JStr ''a'', JStr ''b'', JStr ''c'']) ''contract'' [])) =
       batch_requests world_b_fails ''https://api.vchasno.com'' ''contract'' 0
         [JStr ''a'', JStr ''b'', JStr ''c'']"
proof -
  have ok: "list_all caught_failure
     (answers world_b_fails ''https://api.vchasno.com'' ''contract'' (requests_sent [])
        [JStr ''a'', JStr ''b'', JStr ''c''])"
    unfolding requests_sent_Cons test_answers_b_fails
    by (simp add: caught_failure_def)
  have "\<exists>results tr'.
       batch_analyze test_lib world_b_fails ''https://api.vchasno.com''
         (JArr [JStr ''a'', JStr ''b'', JStr ''c'']) ''contract'' [] = (Inr results, tr')
     \<and> results = filter truthy
         (successful_results
           [Inr (JObj [(''document_id'', JStr ''a'')]),
            Inl (Exn ConnectionError ''Connection refused''),
            Inr (JObj [(''document_id'', JStr ''c'')])])
     \<and> http_requests tr' =
         http_requests [] @ batch_requests world_b_fails ''https://api.vchasno.com''
           ''contract'' 0 [JStr ''a'', JStr ''b'', JStr ''c'']"
    using C4_batch_collects_truthy_results [OF ok, of test_lib]
    unfolding requests_sent_Cons test_answers_b_fails
    by blast
  then show ?thesis
    using ok
    unfolding requests_sent_Cons
    by (auto simp: successful_results_def)
qed

text \<open>
  The claim as worded (exactly \<open>N - K\<close> results, one per successful request) fails: for one
  id whose request is answered 200 with the JSON body \<^verbatim>\<open>{}\<close>, no request failed and the
  batch returns no result.
\<close>

theorem C4_empty_reply_dropped:
  "answers world_empty_reply ''https://api.vchasno.com'' ''contract'' 0 [JStr ''a'']
     = [Inr (JObj [])]
   \<and> failed_requests
       (answers world_empty_reply ''https://api.vchasno.com'' ''contract'' 0 [JStr ''a'']) = 0
   \<and> fst (batch_analyze test_lib world_empty_reply ''https://api.vchasno.com''
            (JArr [JStr ''a'']) ''contract'' []) = Inr []
   \<and> length ([] :: json list) \<noteq>
       length [JStr ''a'']
       - failed_requests
           (answers world_empty_reply ''https://api.vchasno.com'' ''contract'' 0 [JStr ''a''])"
proof -
  have a: "answers world_empty_reply ''https://api.vchasno.com'' ''contract'' 0 [JStr ''a'']
     = [Inr (JObj [])]"
    by (simp add: world_empty_reply_def response_json_def raise_for_status_def)
  have "batch_analyze test_lib world_empty_reply ''https://api.vchasno.com''
            (JArr [JStr ''a'']) ''contract'' [] =
        (Inr [],
         [Stdout (''Analyzing document '' @ py_format test_lib (JStr ''a'') @ ''...''),
          HttpRequest (analyze_request world_empty_reply ''https://api.vchasno.com''
            (JStr ''a'') ''contract'' 0)])"
    using a
    by (simp add: batch_analyze_def py_iter_def bind_def lift_def emit_def ret_def
        analyze_document_cli_run)
  then show ?thesis
    using a by (simp add: failed_requests_def)
qed

text \<open>
  Claim C6 says that \<^verbatim>\<open>analyze_document\<close> and \<^verbatim>\<open>get_stats\<close> of the client never raise.
  Their \<^verbatim>\<open>except\<close> clause names \<^verbatim>\<open>requests.exceptions.RequestException\<close> only: when the
  transport raises a plain \<^verbatim>\<open>Exception("API Error")\<close>, which is what the repository's tests
  \<^verbatim>\<open>test_analyze_document_failure\<close> and \<^verbatim>\<open>test_get_stats_failure\<close> make it do while
  expecting \<^verbatim>\<open>None\<close>, the exception leaves both methods.
\<close>

theorem C6_other_exception_leaves_client:
  "http world_api_error 0
      (analyze_request world_api_error ''https://test-api.vchasno.com'' (JStr ''doc-456'')
         ''compliance'' 0) = Inl (Exn OtherException ''API Error'')
   \<and> fst (analyze_document_cli world_api_error ''https://test-api.vchasno.com''
            (JStr ''doc-456'') ''compliance'' []) = Inl (Exn OtherException ''API Error'')
   \<and> fst (get_stats world_api_error ''https://test-api.vchasno.com'' [])
       = Inl (Exn OtherException ''API Error'')"
  by (simp add: analyze_document_cli_run get_stats_run world_api_error_def response_json_def)

text \<open>
  Claim C9. With the action \<^verbatim>\<open>analyze\<close> and no \<^verbatim>\<open>--doc-id\<close>, or the action \<^verbatim>\<open>batch\<close> and no
  \<^verbatim>\<open>--batch-file\<close>, \<open>main\<close> writes its message to the error stream and exits with status 1
  before any request is sent. When the request of \<^verbatim>\<open>analyze\<close> or \<^verbatim>\<open>stats\<close> fails with an
  exception of the \<^verbatim>\<open>requests\<close> library (no connection, a timeout, an HTTP error status),
  \<open>main\<close> writes the diagnostic to the error stream and exits with status 0.
\<close>

theorem C9_exit_behaviour:
  "(arg_action a1 = Analyze \<and> not_given (arg_doc_id a1)
      \<longrightarrow> main L C a1 [] = (Inr 1, [Stderr ''Error: --doc-id required for analyze action''])
        \<and> exit_status (fst (main L C a1 [])) \<noteq> 0)
   \<and> (arg_action a2 = Batch \<and> not_given (arg_batch_file a2)
      \<longrightarrow> main L C a2 [] = (Inr 1, [Stderr ''Error: --batch-file required for batch action''])
        \<and> exit_status (fst (main L C a2 [])) \<noteq> 0)
   \<and> (arg_action a3 = Analyze \<and> arg_doc_id a3 = Some doc_id \<and> doc_id \<noteq> []
       \<and> response_json
             (http C 0 (analyze_request C (arg_endpoint a3) (JStr doc_id) (arg_doc_type a3) 0))
           = Inl e
       \<and> is_RequestException e
      \<longrightarrow> main L C a3 [] =
          (Inr 0,
           [HttpRequest (analyze_request C (arg_endpoint a3) (JStr doc_id) (arg_doc_type a3) 0),
            Stderr (''Error analyzing document: '' @ exn_message e)])
        \<and> exit_status (fst (main L C a3 [])) = 0)
   \<and> (arg_action a4 = Stats
       \<and> response_json (http C 0 (stats_request (arg_endpoint a4))) = Inl e'
       \<and> is_RequestException e'
      \<longrightarrow> main L C a4 [] =
          (Inr 0,
           [HttpRequest (stats_request (arg_endpoint a4)),
            Stderr (''Error fetching stats: '' @ exn_message e')])
        \<and> exit_status (fst (main L C a4 [])) = 0)"
  by (simp add: main_def bind_def emit_def ret_def exit_status_def not_given_def given_def
      analyze_document_cli_run get_stats_run)

theorem C9_exit_behaviour_witness:
  "arg_action args_analyze_no_id = Analyze \<and> not_given (arg_doc_id args_analyze_no_id)
   \<and> main test_lib world_offline args_analyze_no_id [] =
       (Inr 1, [Stderr ''Error: --doc-id required for analyze action''])
   \<and> arg_action args_batch_no_file = Batch \<and> not_given (arg_batch_file args_batch_no_file)
   \<and> main test_lib world_offline args_batch_no_file [] =
       (Inr 1, [Stderr ''Error: --batch-file required for batch action''])
   \<and> arg_action args_analyze = Analyze \<and> arg_doc_id args_analyze = Some ''doc-789''
   \<and> is_RequestException (Exn ConnectionError ''Connection refused'')
   \<and> fst (main test_lib world_offline args_analyze []) = Inr 0
   \<and> exit_status (fst (main test_lib world_offline args_analyze [])) = 0
   \<and> arg_action args_stats = Stats
   \<and> main test_lib world_offline args_stats [] =
       (Inr 0,
        [HttpRequest (stats_request ''https://api.vchasno.com''),
         Stderr ''Error fetching stats: Connection refused''])"
proof -
  have h: "response_json (http world_offline 0 r)
             = Inl (Exn ConnectionError ''Connection refused'')" for r
    by (simp add: world_offline_def response_json_def)
  show ?thesis
    using C9_exit_behaviour
      [of args_analyze_no_id test_lib world_offline args_batch_no_file args_analyze
          "''doc-789''" "Exn ConnectionError ''Connection refused''" args_stats
          "Exn ConnectionError ''Connection refused''"]
    by (simp add: h args_analyze_no_id_def args_batch_no_file_def args_analyze_def
        args_stats_def not_given_def exit_status_def)
qed

end
